theory Spec2Isabelle
  imports Complex_Main
begin

section \<open>Evaluation of a slice classifier: embedding of \<open>dls_topaz3/evaluate_model.py\<close>\<close>

text \<open>
  The function \<open>evaluate\<close> lists the slice images of a test directory, looks up the label
  of each slice's structure, obtains one pair of scores per slice from a model, and
  aggregates the scores of every \<open>slices_per_structure\<close> consecutive slices into one
  decision per structure, in two ways (mean score, fraction of slices).

  Scores are numpy floats in the source. They are embedded as real numbers: rounding and
  NaN are outside the embedding, comparison and ordering are as in the source.
  \<open>slices_per_structure\<close> is a Python \<open>int\<close> and is embedded as \<open>int\<close>.
\<close>

subsection \<open>Exceptions and Python primitives\<close>

text \<open>
  The exceptions that the embedded lines raise, by their Python names.
  \<open>ReportInputMismatch\<close> is the error of the report builder (see below).
\<close>

datatype error =
    AssertionError string
  | ZeroDivisionError
  | OperationalError
  | IndexError
  | KeyError
  | OSError
  | ValueError
  | ReportInputMismatch

text \<open>A list comprehension whose element expression may raise: the first exception wins.\<close>

fun comprehension :: "(error + 'a) list \<Rightarrow> error + 'a list" where
  "comprehension [] = Inr []"
| "comprehension (r # rs) =
     (case r of
        Inl e \<Rightarrow> Inl e
      | Inr x \<Rightarrow> (case comprehension rs of Inl e \<Rightarrow> Inl e | Inr xs \<Rightarrow> Inr (x # xs)))"

text \<open>\<open>xs[k]\<close> on a Python list: a negative index counts from the end.\<close>

definition py_index :: "'a list \<Rightarrow> int \<Rightarrow> error + 'a" where
  "py_index xs k =
     (let n = int (length xs); j = (if k < 0 then k + n else k)
      in if 0 \<le> j \<and> j < n then Inr (xs ! nat j) else Inl IndexError)"

text \<open>\<open>s[k]\<close> on a pandas Series with the default range index: lookup by label.\<close>

definition series_at :: "'a list \<Rightarrow> int \<Rightarrow> error + 'a" where
  "series_at xs k = (if 0 \<le> k \<and> k < int (length xs) then Inr (xs ! nat k) else Inl KeyError)"

text \<open>\<open>xs[a:b]\<close>: both bounds are clamped to the sequence, negative bounds count from the end.\<close>

definition slice_bound :: "nat \<Rightarrow> int \<Rightarrow> nat" where
  "slice_bound n k = (if k < 0 then nat (max (k + int n) 0) else nat (min k (int n)))"

definition py_slice :: "'a list \<Rightarrow> int \<Rightarrow> int \<Rightarrow> 'a list" where
  "py_slice xs a b =
     (let lo = slice_bound (length xs) a; hi = slice_bound (length xs) b
      in take (hi - lo) (drop lo xs))"

text \<open>
  \<open>range(int(n / S))\<close> for a length \<open>n\<close>: the quotient is truncated towards zero.
  The functions that use it are for \<open>S \<noteq> 0\<close>: the division by zero is raised where they
  are called.
\<close>

definition int_quotient :: "nat \<Rightarrow> int \<Rightarrow> int" where
  "int_quotient n S = (if S < 0 then - (int n div (- S)) else int n div S)"

definition structure_range :: "nat \<Rightarrow> int \<Rightarrow> nat list" where
  "structure_range n S = [0..<nat (int_quotient n S)]"

text \<open>\<open>np.mean\<close> of a one-dimensional array.\<close>

definition np_mean :: "real list \<Rightarrow> real" where
  "np_mean xs = sum_list xs / real (length xs)"

subsection \<open>File names (line 62)\<close>

text \<open>
  \<open>Path(file).stem\<close>: the final path component without its last suffix. A leading dot
  or a trailing dot does not start a suffix.
\<close>

definition path_name :: "string \<Rightarrow> string" where
  "path_name p = rev (takeWhile (\<lambda>c. c \<noteq> CHR ''/'') (rev p))"

definition stem :: "string \<Rightarrow> string" where
  "stem p =
     (let name = path_name p;
          k = length (takeWhile (\<lambda>c. c \<noteq> CHR ''.'') (rev name))
      in if CHR ''.'' \<in> set name \<and> 0 < k \<and> Suc k < length name
         then take (length name - Suc k) name else name)"

definition is_digit :: "char \<Rightarrow> bool" where
  "is_digit c = (c \<in> set ''0123456789'')"

text \<open>The lookahead \<open>(?=_[0-9]+)\<close> at the head of the remaining input.\<close>

fun lookahead :: "string \<Rightarrow> bool" where
  "lookahead (u # d # rest) = (u = CHR ''_'' \<and> is_digit d)"
| "lookahead rest = False"

text \<open>
  The pattern \<open>(.*)(?=_[0-9]+)\<close> anchored at the head of the input: the group is
  greedy, so a longer group is tried before a shorter one, and \<open>.\<close> does not match a
  newline. The result is the text of the group.
\<close>

fun match_at :: "string \<Rightarrow> string option" where
  "match_at [] = None"
| "match_at (c # cs) =
     (if c = CHR 0x0A then None
      else (case match_at cs of
              Some g \<Rightarrow> Some (c # g)
            | None \<Rightarrow> if lookahead (c # cs) then Some [] else None))"

text \<open>
  \<open>re.findall(pattern, s)[0]\<close>: the group of the leftmost match; \<open>findall\<close> returns the
  empty list, and the subscript raises, when no position matches.
\<close>

fun findall_first :: "string \<Rightarrow> error + string" where
  "findall_first [] = Inl IndexError"
| "findall_first (c # cs) =
     (case match_at (c # cs) of Some g \<Rightarrow> Inr g | None \<Rightarrow> findall_first cs)"

definition structure_name :: "string \<Rightarrow> error + string" where
  "structure_name file = findall_first (stem file)"

definition names :: "string list \<Rightarrow> error + string list" where
  "names train_files = comprehension (map structure_name train_files)"

text \<open>Line 63: the label of each name in the table \<open>ai_labels\<close>, indexed by name.\<close>

definition train_labels :: "(string \<rightharpoonup> int) \<Rightarrow> string list \<Rightarrow> error + int list" where
  "train_labels data_indexed ns =
     comprehension (map (\<lambda>n. case data_indexed n of None \<Rightarrow> Inl KeyError | Some l \<Rightarrow> Inr l) ns)"

text \<open>A filename stem has an underscore that is followed by a digit.\<close>

fun has_number_suffix :: "string \<Rightarrow> bool" where
  "has_number_suffix (u # d # rest) =
     ((u = CHR ''_'' \<and> is_digit d) \<or> has_number_suffix (d # rest))"
| "has_number_suffix rest = False"

subsection \<open>Cardinality check (lines 38 to 50)\<close>

definition check_cardinality :: "string \<Rightarrow> string list \<Rightarrow> int \<Rightarrow> error + unit" where
  "check_cardinality test_dir train_files S =
     (if \<not> 0 < length train_files
      then Inl (AssertionError (''Could not find files at '' @ test_dir))
      else if S = 0 then Inl ZeroDivisionError
      else if int (length train_files) mod S \<noteq> 0
      then Inl (AssertionError
             ''Number of test files is not an exact multiple of slices per structure'')
      else Inr ())"

text \<open>
  The error kind that the specification calls \<open>InvalidCardinality\<close>: an exception that
  leaves the \<open>try\<close> block of the check. The two assertions raise \<open>AssertionError\<close>; the
  modulo raises \<open>ZeroDivisionError\<close> when \<open>slices_per_structure\<close> is zero.
\<close>

fun InvalidCardinality :: "error \<Rightarrow> bool" where
  "InvalidCardinality (AssertionError msg) = True"
| "InvalidCardinality ZeroDivisionError = True"
| "InvalidCardinality e = False"

subsection \<open>Decisions and aggregation (lines 89 to 236)\<close>

type_synonym prediction = "real \<times> real"

text \<open>A prediction \<open>x\<close> is the pair \<open>(x[0], x[1])\<close>: negative channel, positive channel.\<close>

definition predictions_decoded :: "prediction list \<Rightarrow> int list" where
  "predictions_decoded predictions =
     map (\<lambda>pred. if snd pred > fst pred then 1 else 0) predictions"

text \<open>Rows \<open>S * i\<close> to \<open>S * i + S\<close> of an array: the slices of structure \<open>i\<close>.\<close>

definition batch :: "'a list \<Rightarrow> int \<Rightarrow> nat \<Rightarrow> 'a list" where
  "batch xs S i = py_slice xs (S * int i) (S * int i + S)"

definition batches :: "'a list \<Rightarrow> int \<Rightarrow> 'a list list" where
  "batches xs S = map (batch xs S) (structure_range (length xs) S)"

definition predictions_structure_avg :: "prediction list \<Rightarrow> int \<Rightarrow> (real \<times> real) list" where
  "predictions_structure_avg predictions S =
     map (\<lambda>i. (np_mean (map fst (batch predictions S i)),
               np_mean (map snd (batch predictions S i))))
         (structure_range (length predictions) S)"

definition predictions_by_result :: "prediction list \<Rightarrow> (int \<times> int) list" where
  "predictions_by_result predictions =
     map (\<lambda>pred. (if fst pred > snd pred then 1 else 0, if snd pred > fst pred then 1 else 0))
         predictions"

definition predictions_structure_count :: "prediction list \<Rightarrow> int \<Rightarrow> (real \<times> real) list" where
  "predictions_structure_count predictions S =
     map (\<lambda>i. (real_of_int (sum_list (map fst (batch (predictions_by_result predictions) S i)))
                  / real_of_int S,
               real_of_int (sum_list (map snd (batch (predictions_by_result predictions) S i)))
                  / real_of_int S))
         (structure_range (length predictions) S)"

definition predictions_struct_avg_flat :: "prediction list \<Rightarrow> int \<Rightarrow> int list" where
  "predictions_struct_avg_flat predictions S =
     map (\<lambda>pred. if pred > 1 / 2 then 1 else 0) (map snd (predictions_structure_avg predictions S))"

definition predictions_struct_count_flat :: "prediction list \<Rightarrow> int \<Rightarrow> int list" where
  "predictions_struct_count_flat predictions S =
     map (\<lambda>pred. if pred > 1 / 2 then 1 else 0)
         (map snd (predictions_structure_count predictions S))"

text \<open>
  The entries of the two per-structure tables for structure \<open>i\<close>:
  \<open>predictions_structure_avg[i, 1]\<close>, \<open>predictions_structure_count[i, 1]\<close> and
  \<open>predictions_structure_count[i, 0]\<close>.
\<close>

definition mean_positive :: "prediction list \<Rightarrow> int \<Rightarrow> nat \<Rightarrow> real" where
  "mean_positive predictions S i = snd (predictions_structure_avg predictions S ! i)"

definition count_fraction :: "prediction list \<Rightarrow> int \<Rightarrow> nat \<Rightarrow> real" where
  "count_fraction predictions S i = snd (predictions_structure_count predictions S ! i)"

definition count_fraction_negative :: "prediction list \<Rightarrow> int \<Rightarrow> nat \<Rightarrow> real" where
  "count_fraction_negative predictions S i = fst (predictions_structure_count predictions S ! i)"

definition testing_info_by_structure :: "int list \<Rightarrow> int \<Rightarrow> error + int list" where
  "testing_info_by_structure labels S =
     comprehension (map (\<lambda>i. series_at labels (S * int i)) (structure_range (length labels) S))"

subsection \<open>Reports\<close>

text \<open>
  Modelled from the spec: the report builder. The source calls
  \<open>sklearn.metrics.classification_report\<close> and \<open>sklearn.metrics.confusion_matrix\<close>, library
  functions that are not part of the repository. The confusion matrix is the square
  matrix over the sorted unique labels of both sequences whose cell \<open>(i, j)\<close> counts the
  samples with label \<open>i\<close> in the first sequence and label \<open>j\<close> in the second; the builder
  fails with \<open>ReportInputMismatch\<close> when the lengths differ or a sequence is empty. The
  class metrics are a parameter.
\<close>

definition unique_labels :: "int list \<Rightarrow> int list \<Rightarrow> int list" where
  "unique_labels predicted true = sort (remdups (predicted @ true))"

definition confusion_matrix :: "int list \<Rightarrow> int list \<Rightarrow> nat list list" where
  "confusion_matrix predicted true =
     (let ls = unique_labels predicted true
      in map (\<lambda>i. map (\<lambda>j. length (filter (\<lambda>s. s = (i, j)) (zip predicted true))) ls) ls)"

definition build_report ::
  "(int list \<Rightarrow> int list \<Rightarrow> 'm) \<Rightarrow> int list \<Rightarrow> int list \<Rightarrow> error + 'm \<times> nat list list" where
  "build_report classification_report predicted true =
     (if length predicted \<noteq> length true \<or> predicted = [] then Inl ReportInputMismatch
      else Inr (classification_report predicted true, confusion_matrix predicted true))"

subsection \<open>Outputs\<close>

text \<open>
  What a run leaves behind: the output directory and the CSV files, in the order in which
  they are written. A score table has an index column, the columns \<open>0\<close> and \<open>1\<close> and the
  column \<open>True Score\<close>; \<open>pandas.DataFrame\<close> raises \<open>ValueError\<close> on columns of different
  lengths.
\<close>

datatype 'm csv =
    Scores "string list" "real list" "real list" "int list"
  | ClassReport 'm
  | Confusion "nat list list"

datatype 'm effect = Mkdir | ToCsv string "'m csv"

definition score_frame ::
  "string list \<Rightarrow> real list \<Rightarrow> real list \<Rightarrow> int list \<Rightarrow> error + 'm csv" where
  "score_frame idx col0 col1 true_score =
     (if length col0 = length idx \<and> length col1 = length idx \<and> length true_score = length idx
      then Inr (Scores idx col0 col1 true_score) else Inl ValueError)"

text \<open>
  One statement that may raise: \<open>step written r k\<close> stops with the exception of \<open>r\<close>,
  leaving the outputs written so far, or continues with the value of \<open>r\<close>.
\<close>

definition step ::
  "'o list \<Rightarrow> error + 'a \<Rightarrow> ('a \<Rightarrow> (error + 'b) \<times> 'o list) \<Rightarrow> (error + 'b) \<times> 'o list" where
  "step written r k = (case r of Inl e \<Rightarrow> (Inl e, written) | Inr x \<Rightarrow> k x)"

subsection \<open>Per structure analysis (lines 138 to 270)\<close>

text \<open>
  The first quotient by \<open>slices_per_structure\<close> (line 159) raises \<open>ZeroDivisionError\<close> when
  it is zero. Indexing the columns of \<open>predictions_structure_avg\<close> raises \<open>IndexError\<close>
  when the array was built from no rows, since it is then one-dimensional.
\<close>

definition per_structure_analysis ::
  "(int list \<Rightarrow> int list \<Rightarrow> 'm) \<Rightarrow> string list \<Rightarrow> int list \<Rightarrow> prediction list \<Rightarrow> int
     \<Rightarrow> (error + bool) \<times> 'm effect list" where
  "per_structure_analysis classification_report ns labels predictions S =
     (let avg = predictions_structure_avg predictions S;
          count = predictions_structure_count predictions S;
          structure = comprehension
            (map (\<lambda>i. py_index ns (S * int i)) (structure_range (length ns) S));
          true_score = comprehension
            (map (\<lambda>i. py_index labels (S * int i)) (structure_range (length ns) S))
      in
      step [] (if S = 0 then Inl ZeroDivisionError else Inr ()) (\<lambda>_.
      step [] structure (\<lambda>st.
      step [] (if avg = [] then Inl IndexError else Inr ()) (\<lambda>_.
      step [] true_score (\<lambda>ts.
      step [] (score_frame st (map fst avg) (map snd avg) ts) (\<lambda>average_dataframe.
      let out1 = [ToCsv ''averaged_predictions.csv'' average_dataframe] in
      step out1 (score_frame st (map fst count) (map snd count) ts) (\<lambda>counted_dataframe.
      let out2 = out1 @ [ToCsv ''counted_predictions.csv'' counted_dataframe] in
      step out2 (testing_info_by_structure labels S) (\<lambda>info.
      step out2 (build_report classification_report
                   (predictions_struct_avg_flat predictions S) info) (\<lambda>(avg_class, avg_conf).
      let out3 = out2 @ [ToCsv ''average_class.csv'' (ClassReport avg_class),
                         ToCsv ''average_conf.csv'' (Confusion avg_conf)] in
      step out3 (build_report classification_report
                   (predictions_struct_count_flat predictions S) info) (\<lambda>(count_class, count_conf).
      (Inr True, out3 @ [ToCsv ''count_class.csv'' (ClassReport count_class),
                         ToCsv ''count_conf.csv'' (Confusion count_conf)])))))))))))"

subsection \<open>The whole run (lines 36 to 270)\<close>

text \<open>
  The collaborators of a run: the listing of the test directory, the table of labels
  (\<open>None\<close> when the database cannot be opened), and the state of the output directory.
  Writing a CSV file into an existing directory is taken to succeed.
\<close>

record env =
  test_dir :: string
  train_files :: "string list"
  database :: "(string \<rightharpoonup> int) option"
  output_dir_exists :: bool
  mkdir_ok :: bool

text \<open>
  The embedding starts once the model file has been loaded (lines 28 to 34 re-raise
  otherwise, before anything else happens).
\<close>

text \<open>
  Modelled from the spec: the inference provider. The source runs the loaded Keras model
  over a generator of the listed files; the provider returns one prediction per image, in
  the order of the images, so it is a function \<open>model\<close> from a file to its prediction.
\<close>

definition evaluate ::
  "(string \<Rightarrow> prediction) \<Rightarrow> (int list \<Rightarrow> int list \<Rightarrow> 'm) \<Rightarrow> env \<Rightarrow> int
     \<Rightarrow> (error + bool) \<times> 'm effect list" where
  "evaluate model classification_report w S =
     step [] (check_cardinality (test_dir w) (train_files w) S) (\<lambda>_.
     step [] (case database w of None \<Rightarrow> Inl OperationalError | Some d \<Rightarrow> Inr d) (\<lambda>data_indexed.
     step [] (names (train_files w)) (\<lambda>ns.
     step [] (train_labels data_indexed ns) (\<lambda>labels.
     let predictions = map model (train_files w) in
     step [] (if output_dir_exists w \<or> mkdir_ok w then Inr () else Inl OSError) (\<lambda>_.
     let out0 = (if output_dir_exists w then [] else [Mkdir]) in
     step out0 (score_frame (train_files w) (map fst predictions) (map snd predictions) labels)
       (\<lambda>raw_dataframe.
     let out1 = out0 @ [ToCsv ''raw_predictions.csv'' raw_dataframe] in
     step out1 (build_report classification_report (predictions_decoded predictions) labels)
       (\<lambda>(per_image_class, per_image_conf).
     let out2 = out1 @ [ToCsv ''per_image_class.csv'' (ClassReport per_image_class),
                        ToCsv ''per_image_conf.csv'' (Confusion per_image_conf)] in
     case per_structure_analysis classification_report ns labels predictions S of
       (r, out) \<Rightarrow> (r, out2 @ out))))))))"

subsection \<open>Example runs\<close>

text \<open>
  Small test directories: two slices that belong to two different structures, no slice,
  three slices of one structure, a directory with a file that has no slice number, and a
  single slice; two models with a constant output, one of them with equal channels; and
  four predictions.
\<close>

definition two_slices :: env where
  "two_slices =
     \<lparr>test_dir = ''maps'',
      train_files = [''maps/1abc_1.png'', ''maps/2xyz_2.png''],
      database = Some [''1abc'' \<mapsto> 1, ''2xyz'' \<mapsto> 0],
      output_dir_exists = False, mkdir_ok = True\<rparr>"

definition no_slices :: env where
  "no_slices = two_slices\<lparr>train_files := []\<rparr>"

definition three_slices :: env where
  "three_slices =
     two_slices\<lparr>train_files := [''maps/1abc_1.png'', ''maps/1abc_2.png'', ''maps/1abc_3.png'']\<rparr>"

definition unnumbered :: env where
  "unnumbered = two_slices\<lparr>train_files := [''maps/1abc_1.png'', ''maps/notes.png'']\<rparr>"

definition one_slice :: env where
  "one_slice = two_slices\<lparr>train_files := [''maps/1abc_1.png'']\<rparr>"

definition tied_model :: "string \<Rightarrow> prediction" where
  "tied_model file = (1 / 2, 1 / 2)"

definition four_predictions :: "prediction list" where
  "four_predictions = [(1 / 4, 3 / 4), (2 / 5, 3 / 5), (3 / 4, 1 / 4), (1 / 2, 1 / 2)]"

definition constant_model :: "string \<Rightarrow> prediction" where
  "constant_model file = (1 / 4, 3 / 4)"

definition no_metrics :: "int list \<Rightarrow> int list \<Rightarrow> unit" where
  "no_metrics predicted true = ()"

section \<open>Slices and batches\<close>

lemma structure_range_nat: "structure_range n (int S) = [0..<n div S]"
  by (simp add: structure_range_def int_quotient_def zdiv_int [symmetric])

lemma structure_range_nonpos: "S \<le> 0 \<Longrightarrow> structure_range n S = []"
  by (cases "S = 0") (simp_all add: structure_range_def int_quotient_def pos_imp_zdiv_nonneg_iff)

lemma py_slice_nat: "py_slice xs (int a) (int a + int b) = take b (drop a xs)"
  by (auto simp add: py_slice_def slice_bound_def Let_def min_def nat_add_distrib)

lemma batch_nat: "batch xs (int S) i = take S (drop (S * i) xs)"
  using py_slice_nat [of xs "S * i" S] by (simp add: batch_def)

lemma batches_nat:
  "batches xs (int S) = map (\<lambda>i. take S (drop (S * i) xs)) [0..<length xs div S]"
  by (simp add: batches_def structure_range_nat batch_nat)

lemma concat_take_drop: "concat (map (\<lambda>i. take S (drop (S * i) xs)) [0..<n]) = take (S * n) xs"
proof (induction n)
  case 0
  show ?case by simp
next
  case (Suc n)
  have "take (S * n + S) xs = take (S * n) xs @ take S (drop (S * n) xs)"
    by (rule take_add)
  with Suc show ?case by (simp add: add.commute)
qed

lemma length_batch_full: "i < length xs div S \<Longrightarrow> min (length xs - S * i) S = S"
proof -
  assume a: "i < length xs div S"
  then have "Suc i \<le> length xs div S" by simp
  then have "S * Suc i \<le> S * (length xs div S)" by (rule mult_le_mono2)
  also have "\<dots> \<le> length xs" by simp
  finally show ?thesis by simp
qed

lemma length_batch_nat: "i < length xs div S \<Longrightarrow> length (batch xs (int S) i) = S"
  by (simp add: batch_nat length_batch_full)

lemma structure_range_cases:
  "structure_range n S = (if 0 < S then [0..<n div nat S] else [])"
proof (cases "0 < S")
  case True
  then have "structure_range n (int (nat S)) = [0..<n div nat S]"
    by (simp only: structure_range_nat)
  with True show ?thesis by simp
next
  case False
  then show ?thesis by (simp add: structure_range_nonpos)
qed

lemma batch_pos: "0 < S \<Longrightarrow> batch xs S i = take (nat S) (drop (nat S * i) xs)"
  using batch_nat [of xs "nat S" i] by simp

lemma batch_map: "batch (map f xs) S i = map f (batch xs S i)"
  by (simp add: batch_def py_slice_def Let_def take_map drop_map)

lemma length_batch_pos:
  "0 < S \<Longrightarrow> i < length xs div nat S \<Longrightarrow> length (batch xs S i) = nat S"
  using length_batch_nat [of i xs "nat S"] by simp

lemma sum_snd_by_result:
  "sum_list (map snd (predictions_by_result ps)) = int (length (filter (\<lambda>p. fst p < snd p) ps))"
  by (induction ps) (simp_all add: predictions_by_result_def)

lemma sum_fst_by_result:
  "sum_list (map fst (predictions_by_result ps)) = int (length (filter (\<lambda>p. snd p < fst p) ps))"
  by (induction ps) (simp_all add: predictions_by_result_def)

lemma batch_by_result:
  "batch (predictions_by_result ps) S i = predictions_by_result (batch ps S i)"
  by (simp add: predictions_by_result_def batch_map)

lemma length_structure_tables:
  "length (predictions_structure_avg ps S) = length (structure_range (length ps) S)"
  "length (predictions_structure_count ps S) = length (structure_range (length ps) S)"
  "length (predictions_struct_avg_flat ps S) = length (structure_range (length ps) S)"
  "length (predictions_struct_count_flat ps S) = length (structure_range (length ps) S)"
  by (simp_all add: predictions_structure_avg_def predictions_structure_count_def
      predictions_struct_avg_flat_def predictions_struct_count_flat_def)

lemma structure_range_nth:
  "i < length (structure_range n S) \<Longrightarrow> structure_range n S ! i = i"
  by (simp add: structure_range_def)

lemma in_structure_range:
  "i < length (structure_range n S) \<Longrightarrow> 0 < S \<and> i < n div nat S"
  by (simp add: structure_range_cases split: if_splits)

lemma mean_positive_batch:
  "i < length (structure_range (length ps) S) \<Longrightarrow>
   mean_positive ps S i = np_mean (map snd (batch ps S i))"
  by (simp add: mean_positive_def predictions_structure_avg_def structure_range_nth)

lemma count_fraction_batch:
  "i < length (structure_range (length ps) S) \<Longrightarrow>
   count_fraction ps S i =
     real (length (filter (\<lambda>p. fst p < snd p) (batch ps S i))) / real_of_int S"
  by (simp add: count_fraction_def predictions_structure_count_def structure_range_nth
      batch_by_result sum_snd_by_result)

lemma count_fraction_negative_batch:
  "i < length (structure_range (length ps) S) \<Longrightarrow>
   count_fraction_negative ps S i =
     real (length (filter (\<lambda>p. snd p < fst p) (batch ps S i))) / real_of_int S"
  by (simp add: count_fraction_negative_def predictions_structure_count_def structure_range_nth
      batch_by_result sum_fst_by_result)

lemma avg_flat_nth:
  "i < length (structure_range (length ps) S) \<Longrightarrow>
   predictions_struct_avg_flat ps S ! i = (if 1 / 2 < mean_positive ps S i then 1 else 0)"
  by (simp add: predictions_struct_avg_flat_def mean_positive_def length_structure_tables)

lemma count_flat_nth:
  "i < length (structure_range (length ps) S) \<Longrightarrow>
   predictions_struct_count_flat ps S ! i = (if 1 / 2 < count_fraction ps S i then 1 else 0)"
  by (simp add: predictions_struct_count_flat_def count_fraction_def length_structure_tables)

lemmas eval_defs = predictions_structure_avg_def predictions_structure_count_def
  predictions_struct_avg_flat_def predictions_struct_count_flat_def predictions_by_result_def
  mean_positive_def count_fraction_def count_fraction_negative_def structure_range_def
  int_quotient_def batch_def py_slice_def slice_bound_def np_mean_def


lemma length_filter_all: "length (filter P xs) = length xs \<longleftrightarrow> (\<forall>x\<in>set xs. P x)"
proof (induction xs)
  case Nil
  show ?case by simp
next
  case (Cons x xs)
  have le: "length (filter P xs) \<le> length xs" by (rule length_filter_le)
  show ?case
  proof (cases "P x")
    case True
    with Cons show ?thesis by simp
  next
    case False
    from le have "length (filter P xs) \<noteq> Suc (length xs)" by arith
    with False show ?thesis by simp
  qed
qed

lemma sum_list_above:
  fixes c :: real
  shows "xs \<noteq> [] \<Longrightarrow> \<forall>x\<in>set xs. c < x \<Longrightarrow> c * real (length xs) < sum_list xs"
proof (induction xs)
  case Nil
  then show ?case by simp
next
  case (Cons x xs)
  show ?case
  proof (cases "xs = []")
    case True
    with Cons.prems show ?thesis by simp
  next
    case False
    with Cons have "c * real (length xs) < sum_list xs" by simp
    moreover from Cons.prems have "c < x" by simp
    ultimately show ?thesis by (simp add: algebra_simps)
  qed
qed

lemma sum_list_below:
  fixes c :: real
  shows "\<forall>x\<in>set xs. x \<le> c \<Longrightarrow> sum_list xs \<le> c * real (length xs)"
  by (induction xs) (auto simp add: algebra_simps)

lemma np_mean_above: "xs \<noteq> [] \<Longrightarrow> \<forall>x\<in>set xs. c < x \<Longrightarrow> c < np_mean xs"
  using sum_list_above [of xs c] by (simp add: np_mean_def pos_less_divide_eq)

lemma np_mean_below: "xs \<noteq> [] \<Longrightarrow> \<forall>x\<in>set xs. x \<le> c \<Longrightarrow> np_mean xs \<le> c"
  using sum_list_below [of xs c] by (simp add: np_mean_def pos_divide_le_eq)

lemma ratio_eq_one: "0 < n \<Longrightarrow> real k / real n = 1 \<longleftrightarrow> k = n"
  by auto


lemma filter_three_way:
  fixes ps :: "prediction list"
  shows "length (filter (\<lambda>p. snd p < fst p) ps) + length (filter (\<lambda>p. fst p < snd p) ps)
         + length (filter (\<lambda>p. fst p = snd p) ps) = length ps"
  by (induction ps) auto

lemma count_fractions_sum:
  assumes "i < length (predictions_structure_count ps S)"
  shows "count_fraction_negative ps S i + count_fraction ps S i =
         1 - real (length (filter (\<lambda>p. fst p = snd p) (batch ps S i))) / real_of_int S"
proof -
  let ?b = "batch ps S i"
  from assms have r: "i < length (structure_range (length ps) S)"
    by (simp add: length_structure_tables)
  then have S: "0 < S" and i: "i < length ps div nat S"
    using in_structure_range by blast+
  have len: "length ?b = nat S"
    using S i by (rule length_batch_pos)
  have "real (length (filter (\<lambda>p. snd p < fst p) ?b)) + real (length (filter (\<lambda>p. fst p < snd p) ?b))
         + real (length (filter (\<lambda>p. fst p = snd p) ?b)) = real (length ?b)"
    using filter_three_way [of ?b] by (simp only: of_nat_add [symmetric])
  with S len show ?thesis
    by (simp add: count_fraction_batch [OF r] count_fraction_negative_batch [OF r] field_simps)
qed


section \<open>The confusion matrix\<close>

lemma unique_labels_props:
  "distinct (unique_labels p t)" "set (unique_labels p t) = set p \<union> set t"
  by (simp_all add: unique_labels_def)

lemma length_filter_eq_count: "length (filter (\<lambda>s. s = x) zs) = count_list zs x"
  by (induction zs) auto

lemma sum_cells:
  assumes "distinct ls" and "set zs \<subseteq> set ls \<times> set ls"
  shows "sum_list (map (\<lambda>i. sum_list (map (\<lambda>j. length (filter (\<lambda>s. s = (i, j)) zs)) ls)) ls)
         = length zs"
proof -
  have "sum_list (map (\<lambda>i. sum_list (map (\<lambda>j. length (filter (\<lambda>s. s = (i, j)) zs)) ls)) ls)
        = (\<Sum>i\<in>set ls. \<Sum>j\<in>set ls. count_list zs (i, j))"
    using assms(1) by (simp add: sum_list_distinct_conv_sum_set length_filter_eq_count)
  also have "\<dots> = (\<Sum>x\<in>set ls \<times> set ls. count_list zs x)"
    by (simp add: sum.cartesian_product)
  also have "\<dots> = length zs"
    using assms(2) by (intro sum_count_set) simp_all
  finally show ?thesis .
qed

lemma confusion_matrix_sum:
  "sum_list (map sum_list (confusion_matrix p t)) = length (zip p t)"
proof -
  have "set (zip p t) \<subseteq> set (unique_labels p t) \<times> set (unique_labels p t)"
    by (auto simp add: unique_labels_props dest: set_zip_leftD set_zip_rightD)
  with unique_labels_props(1) [of p t] show ?thesis
    by (simp add: confusion_matrix_def Let_def comp_def sum_cells)
qed


section \<open>File names and labels\<close>

lemma step_simps [simp]:
  "step written (Inl e) k = (Inl e, written)"
  "step written (Inr x) k = k x"
  by (simp_all add: step_def)

lemma comprehension_total: "comprehension (map (\<lambda>x. Inr (g x)) xs) = Inr (map g xs)"
  by (induction xs) simp_all

lemma comprehension_length: "comprehension rs = Inr xs \<Longrightarrow> length xs = length rs"
  by (induction rs arbitrary: xs) (auto split: sum.splits)

lemma comprehension_error: "comprehension rs = Inl e \<Longrightarrow> Inl e \<in> set rs"
  by (induction rs) (auto split: sum.splits)

lemma comprehension_Inr: "Inl e \<in> set rs \<Longrightarrow> \<exists>e'. comprehension rs = Inl e'"
  by (induction rs) (auto split: sum.splits)

lemma comprehension_cong:
  "(\<And>x. x \<in> set xs \<Longrightarrow> f x = Inr (g x)) \<Longrightarrow> comprehension (map f xs) = Inr (map g xs)"
  by (induction xs) simp_all

lemma has_number_suffix_Cons: "has_number_suffix (c # cs) \<longleftrightarrow> lookahead (c # cs) \<or> has_number_suffix cs"
  by (cases cs) auto

lemma lookahead_match: "lookahead s \<Longrightarrow> match_at s \<noteq> None"
  by (cases s rule: lookahead.cases) (auto simp add: is_digit_def split: option.splits)

lemma match_has_suffix: "match_at s = Some g \<Longrightarrow> has_number_suffix s"
proof (induction s arbitrary: g)
  case Nil
  then show ?case by simp
next
  case (Cons c cs)
  then show ?case
    by (auto simp add: has_number_suffix_Cons simp del: has_number_suffix.simps lookahead.simps
        split: if_splits option.splits)
qed

lemma findall_first_error: "findall_first s = Inl e \<Longrightarrow> e = IndexError"
  by (induction s) (auto split: option.splits)

lemma findall_first_fails: "findall_first s = Inl IndexError \<longleftrightarrow> \<not> has_number_suffix s"
proof (induction s)
  case Nil
  show ?case by simp
next
  case (Cons c cs)
  show ?case
  proof (cases "match_at (c # cs)")
    case None
    then have "\<not> lookahead (c # cs)" using lookahead_match by blast
    with None Cons show ?thesis
      by (simp add: has_number_suffix_Cons del: has_number_suffix.simps lookahead.simps match_at.simps)
  next
    case (Some g)
    then have "has_number_suffix (c # cs)" by (rule match_has_suffix)
    with Some show ?thesis by (simp del: has_number_suffix.simps match_at.simps)
  qed
qed

lemma structure_name_fails:
  "structure_name file = Inl IndexError \<longleftrightarrow> \<not> has_number_suffix (stem file)"
  by (simp add: structure_name_def findall_first_fails)

lemma structure_name_error: "structure_name file = Inl e \<Longrightarrow> e = IndexError"
  by (simp add: structure_name_def findall_first_error)

lemma names_error: "names fs = Inl e \<Longrightarrow> e = IndexError"
  by (auto simp add: names_def dest!: comprehension_error structure_name_error [OF sym])

lemma names_fails: "(\<exists>e. names fs = Inl e) \<longleftrightarrow> (\<exists>f\<in>set fs. \<not> has_number_suffix (stem f))"
proof
  assume "\<exists>e. names fs = Inl e"
  then obtain e where "names fs = Inl e" ..
  then have "Inl e \<in> set (map structure_name fs)"
    unfolding names_def by (rule comprehension_error)
  then obtain f where f: "f \<in> set fs" "structure_name f = Inl e" by auto
  then have "e = IndexError" by (simp add: structure_name_error)
  with f show "\<exists>f\<in>set fs. \<not> has_number_suffix (stem f)"
    using structure_name_fails by blast
next
  assume "\<exists>f\<in>set fs. \<not> has_number_suffix (stem f)"
  then obtain f where "f \<in> set fs" "structure_name f = Inl IndexError"
    using structure_name_fails by blast
  then have "Inl IndexError \<in> set (map structure_name fs)" by force
  then show "\<exists>e. names fs = Inl e"
    unfolding names_def by (rule comprehension_Inr)
qed

lemma names_length: "names fs = Inr ns \<Longrightarrow> length ns = length fs"
  by (auto simp add: names_def dest: comprehension_length)

lemma train_labels_length: "train_labels d ns = Inr ls \<Longrightarrow> length ls = length ns"
  by (auto simp add: train_labels_def dest: comprehension_length)

lemma train_labels_error: "train_labels d ns = Inl e \<Longrightarrow> e = KeyError"
  by (auto simp add: train_labels_def dest!: comprehension_error split: option.splits)

section \<open>The stages of a run\<close>

lemma batch_start_in_range:
  fixes S :: nat
  assumes "i < L div S"
  shows "S * i < L"
proof -
  from assms have "0 < S" by (cases "S = 0") simp_all
  from assms have "Suc i \<le> L div S" by simp
  then have "S * Suc i \<le> S * (L div S)" by (rule mult_le_mono2)
  also have "\<dots> \<le> L" by simp
  finally show ?thesis using \<open>0 < S\<close> by simp
qed

lemma py_index_nat: "k < length xs \<Longrightarrow> py_index xs (int k) = Inr (xs ! k)"
  by (simp add: py_index_def Let_def)

lemma series_at_nat: "k < length xs \<Longrightarrow> series_at xs (int k) = Inr (xs ! k)"
  by (simp add: series_at_def)

lemma first_of_batch_py:
  fixes S :: nat
  assumes "length xs = L"
  shows "comprehension (map (\<lambda>i. py_index xs (int S * int i)) [0..<L div S])
         = Inr (map (\<lambda>i. xs ! (S * i)) [0..<L div S])"
proof (rule comprehension_cong)
  fix i assume "i \<in> set [0..<L div S]"
  then have "S * i < length xs" using assms by (simp add: batch_start_in_range)
  then have "py_index xs (int (S * i)) = Inr (xs ! (S * i))" by (rule py_index_nat)
  then show "py_index xs (int S * int i) = Inr (xs ! (S * i))" by simp
qed

lemma testing_info_first_of_batch:
  fixes S :: nat
  shows "testing_info_by_structure labels (int S)
         = Inr (map (\<lambda>i. labels ! (S * i)) [0..<length labels div S])"
  unfolding testing_info_by_structure_def structure_range_nat
proof (rule comprehension_cong)
  fix i assume "i \<in> set [0..<length labels div S]"
  then have "S * i < length labels" by (simp add: batch_start_in_range)
  then have "series_at labels (int (S * i)) = Inr (labels ! (S * i))" by (rule series_at_nat)
  then show "series_at labels (int S * int i) = Inr (labels ! (S * i))" by simp
qed

lemma structures_positive:
  fixes S :: nat
  assumes "0 < L" and "L mod S = 0"
  shows "0 < L div S"
proof -
  from assms have "0 < S" by (cases "S = 0") simp_all
  moreover from assms have "S dvd L" by (simp add: mod_eq_0_iff_dvd)
  then have "S \<le> L" using assms(1) by (rule dvd_imp_le)
  ultimately show ?thesis by (simp add: div_greater_zero_iff)
qed

lemma per_structure_analysis_succeeds:
  fixes S :: nat
  assumes L: "0 < length labels" "length labels mod S = 0"
    and len: "length ns = length labels" "length predictions = length labels"
  shows "per_structure_analysis classification_report ns labels predictions (int S) =
    (let info = map (\<lambda>i. labels ! (S * i)) [0..<length labels div S];
         structure = map (\<lambda>i. ns ! (S * i)) [0..<length labels div S];
         avg = predictions_structure_avg predictions (int S);
         count = predictions_structure_count predictions (int S);
         avg_flat = predictions_struct_avg_flat predictions (int S);
         count_flat = predictions_struct_count_flat predictions (int S)
     in (Inr True,
         [ToCsv ''averaged_predictions.csv'' (Scores structure (map fst avg) (map snd avg) info),
          ToCsv ''counted_predictions.csv'' (Scores structure (map fst count) (map snd count) info),
          ToCsv ''average_class.csv'' (ClassReport (classification_report avg_flat info)),
          ToCsv ''average_conf.csv'' (Confusion (confusion_matrix avg_flat info)),
          ToCsv ''count_class.csv'' (ClassReport (classification_report count_flat info)),
          ToCsv ''count_conf.csv'' (Confusion (confusion_matrix count_flat info))]))"
proof -
  let ?n = "length labels div S"
  have n: "0 < ?n" using L by (rule structures_positive)
  have st: "comprehension (map (\<lambda>i. py_index ns (int S * int i)) [0..<?n])
            = Inr (map (\<lambda>i. ns ! (S * i)) [0..<?n])"
    using len(1) by (rule first_of_batch_py)
  have ts: "comprehension (map (\<lambda>i. py_index labels (int S * int i)) [0..<?n])
            = Inr (map (\<lambda>i. labels ! (S * i)) [0..<?n])"
    by (rule first_of_batch_py) simp
  have la: "length (predictions_structure_avg predictions (int S)) = ?n"
    and lc: "length (predictions_structure_count predictions (int S)) = ?n"
    and laf: "length (predictions_struct_avg_flat predictions (int S)) = ?n"
    and lcf: "length (predictions_struct_count_flat predictions (int S)) = ?n"
    by (simp_all add: length_structure_tables structure_range_nat len)
  have S: "S \<noteq> 0" using L by (cases "S = 0") simp_all
  from la n have ane: "predictions_structure_avg predictions (int S) \<noteq> []" by auto
  from laf n have afne: "predictions_struct_avg_flat predictions (int S) \<noteq> []" by auto
  from lcf n have cfne: "predictions_struct_count_flat predictions (int S) \<noteq> []" by auto
  show ?thesis
    unfolding per_structure_analysis_def
    by (simp add: Let_def structure_range_nat len st ts ane afne cfne la lc laf lcf S
        score_frame_def testing_info_first_of_batch build_report_def)
qed

lemma py_index_comprehension_error:
  "comprehension (map (\<lambda>i. py_index xs (f i)) js) = Inl e \<Longrightarrow> e = IndexError"
  by (auto simp add: py_index_def Let_def dest!: comprehension_error split: if_splits)

lemma testing_info_error: "testing_info_by_structure labels S = Inl e \<Longrightarrow> e = KeyError"
  by (auto simp add: testing_info_by_structure_def series_at_def dest!: comprehension_error
      split: if_splits)

lemma score_frame_error: "score_frame idx c0 c1 t = Inl e \<Longrightarrow> e = ValueError"
  by (simp add: score_frame_def split: if_splits)

lemma build_report_error: "build_report cr p t = Inl e \<Longrightarrow> e = ReportInputMismatch"
  by (simp add: build_report_def split: if_splits)

lemma step_error:
  "fst (step written r k) = Inl e \<Longrightarrow>
   (r = Inl e \<Longrightarrow> P) \<Longrightarrow> (\<And>x. r = Inr x \<Longrightarrow> fst (k x) = Inl e \<Longrightarrow> P) \<Longrightarrow> P"
  by (cases r) simp_all

lemma per_structure_analysis_error:
  assumes "fst (per_structure_analysis cr ns labels predictions S) = Inl e" and "S \<noteq> 0"
  shows "e \<in> {IndexError, KeyError, ValueError, ReportInputMismatch}"
  using assms unfolding per_structure_analysis_def Let_def
  by (auto elim!: step_error dest: py_index_comprehension_error testing_info_error
      score_frame_error build_report_error split: if_splits)

lemma per_structure_analysis_error_pair:
  "per_structure_analysis cr ns labels predictions S = (Inl e, out) \<Longrightarrow> S \<noteq> 0 \<Longrightarrow>
   e \<in> {IndexError, KeyError, ValueError, ReportInputMismatch}"
  using per_structure_analysis_error [of cr ns labels predictions S e] by simp

lemma check_cardinality_Inr:
  "check_cardinality dir fs S = Inr () \<Longrightarrow> 0 < length fs \<and> S \<noteq> 0 \<and> int (length fs) mod S = 0"
  by (simp add: check_cardinality_def split: if_splits)

lemma evaluate_error_after_check:
  assumes "check_cardinality (test_dir w) (train_files w) S = Inr ()"
    and "fst (evaluate model cr w S) = Inl e"
  shows "e \<in> {OperationalError, IndexError, KeyError, OSError, ValueError, ReportInputMismatch}"
  using assms check_cardinality_Inr [OF assms(1)] unfolding evaluate_def Let_def
  by (auto elim!: step_error dest: names_error train_labels_error
      score_frame_error build_report_error per_structure_analysis_error_pair
      split: if_splits option.splits prod.splits)

lemma check_cardinality_fails:
  assumes "length fs = 0 \<or> int (length fs) mod S \<noteq> 0"
  shows "\<exists>e. check_cardinality dir fs S = Inl e \<and> InvalidCardinality e \<and>
             (S \<noteq> 0 \<or> length fs = 0 \<longrightarrow> (\<exists>msg. e = AssertionError msg))"
  using assms by (auto simp add: check_cardinality_def)

lemma check_cardinality_passes:
  "0 < length fs \<Longrightarrow> int (length fs) mod S = 0 \<Longrightarrow> check_cardinality dir fs S = Inr ()"
  by (auto simp add: check_cardinality_def)


lemma length_predictions_decoded: "length (predictions_decoded ps) = length ps"
  by (simp add: predictions_decoded_def)

lemma per_structure_analysis_negative:
  "S < 0 \<Longrightarrow> per_structure_analysis cr ns labels predictions S = (Inl IndexError, [])"
  by (simp add: per_structure_analysis_def Let_def structure_range_nonpos
      predictions_structure_avg_def)

lemma evaluate_succeeds:
  fixes S :: nat
  assumes L: "0 < length (train_files w)" "length (train_files w) mod S = 0"
    and db: "database w = Some d"
    and ns: "names (train_files w) = Inr ns"
    and ls: "train_labels d ns = Inr labels"
    and dir: "output_dir_exists w \<or> mkdir_ok w"
  shows "evaluate model classification_report w (int S) =
    (let predictions = map model (train_files w);
         decoded = predictions_decoded predictions;
         info = map (\<lambda>i. labels ! (S * i)) [0..<length labels div S];
         structure = map (\<lambda>i. ns ! (S * i)) [0..<length labels div S];
         avg = predictions_structure_avg predictions (int S);
         count = predictions_structure_count predictions (int S);
         avg_flat = predictions_struct_avg_flat predictions (int S);
         count_flat = predictions_struct_count_flat predictions (int S)
     in (Inr True,
         (if output_dir_exists w then [] else [Mkdir]) @
         [ToCsv ''raw_predictions.csv''
            (Scores (train_files w) (map fst predictions) (map snd predictions) labels),
          ToCsv ''per_image_class.csv'' (ClassReport (classification_report decoded labels)),
          ToCsv ''per_image_conf.csv'' (Confusion (confusion_matrix decoded labels)),
          ToCsv ''averaged_predictions.csv'' (Scores structure (map fst avg) (map snd avg) info),
          ToCsv ''counted_predictions.csv'' (Scores structure (map fst count) (map snd count) info),
          ToCsv ''average_class.csv'' (ClassReport (classification_report avg_flat info)),
          ToCsv ''average_conf.csv'' (Confusion (confusion_matrix avg_flat info)),
          ToCsv ''count_class.csv'' (ClassReport (classification_report count_flat info)),
          ToCsv ''count_conf.csv'' (Confusion (confusion_matrix count_flat info))]))"
proof -
  have lns: "length ns = length (train_files w)" using ns by (rule names_length)
  have lls: "length labels = length (train_files w)"
    using ls lns by (simp add: train_labels_length)
  have S: "S \<noteq> 0" using L by (cases "S = 0") simp_all
  have "int (length (train_files w)) mod int S = 0"
    using L(2) by (simp add: zmod_int [symmetric])
  then have chk: "check_cardinality (test_dir w) (train_files w) (int S) = Inr ()"
    using L(1) by (simp add: check_cardinality_passes)
  have ne: "predictions_decoded (map model (train_files w)) \<noteq> []"
    using L(1) by (simp add: predictions_decoded_def)
  have psa: "per_structure_analysis classification_report ns labels (map model (train_files w)) (int S) =
    (let info = map (\<lambda>i. labels ! (S * i)) [0..<length labels div S];
         structure = map (\<lambda>i. ns ! (S * i)) [0..<length labels div S];
         avg = predictions_structure_avg (map model (train_files w)) (int S);
         count = predictions_structure_count (map model (train_files w)) (int S);
         avg_flat = predictions_struct_avg_flat (map model (train_files w)) (int S);
         count_flat = predictions_struct_count_flat (map model (train_files w)) (int S)
     in (Inr True,
         [ToCsv ''averaged_predictions.csv'' (Scores structure (map fst avg) (map snd avg) info),
          ToCsv ''counted_predictions.csv'' (Scores structure (map fst count) (map snd count) info),
          ToCsv ''average_class.csv'' (ClassReport (classification_report avg_flat info)),
          ToCsv ''average_conf.csv'' (Confusion (confusion_matrix avg_flat info)),
          ToCsv ''count_class.csv'' (ClassReport (classification_report count_flat info)),
          ToCsv ''count_conf.csv'' (Confusion (confusion_matrix count_flat info))]))"
    using L by (intro per_structure_analysis_succeeds) (simp_all add: lns lls)
  show ?thesis
    unfolding evaluate_def
    using dir
    by (simp add: chk db ns ls psa Let_def score_frame_def lls build_report_def
        length_predictions_decoded ne)
qed

lemma evaluate_stages:
  assumes "check_cardinality (test_dir w) (train_files w) S = Inr ()"
  shows "database w = None \<Longrightarrow> evaluate model cr w S = (Inl OperationalError, [])"
    and "database w = Some d \<Longrightarrow> names (train_files w) = Inl e \<Longrightarrow>
         evaluate model cr w S = (Inl e, [])"
    and "database w = Some d \<Longrightarrow> names (train_files w) = Inr ns \<Longrightarrow>
         train_labels d ns = Inl e \<Longrightarrow> evaluate model cr w S = (Inl e, [])"
    and "database w = Some d \<Longrightarrow> names (train_files w) = Inr ns \<Longrightarrow>
         train_labels d ns = Inr labels \<Longrightarrow> \<not> output_dir_exists w \<Longrightarrow> \<not> mkdir_ok w \<Longrightarrow>
         evaluate model cr w S = (Inl OSError, [])"
  using assms by (simp_all add: evaluate_def)

lemma evaluate_nonpos:
  assumes chk: "check_cardinality (test_dir w) (train_files w) S = Inr ()"
    and S: "S \<le> 0"
    and db: "database w = Some d"
    and ns: "names (train_files w) = Inr ns"
    and ls: "train_labels d ns = Inr labels"
    and dir: "output_dir_exists w \<or> mkdir_ok w"
  shows "fst (evaluate model cr w S) = Inl IndexError"
proof -
  have lls: "length labels = length (train_files w)"
    using ls ns by (simp add: train_labels_length names_length)
  have "0 < length (train_files w)" and "S \<noteq> 0" using chk check_cardinality_Inr by blast+
  then have ne: "predictions_decoded (map model (train_files w)) \<noteq> []"
    by (simp add: predictions_decoded_def)
  from S \<open>S \<noteq> 0\<close> have neg: "S < 0" by simp
  show ?thesis
    unfolding evaluate_def using dir
    by (simp add: chk db ns ls Let_def score_frame_def lls build_report_def
        length_predictions_decoded ne per_structure_analysis_negative [OF neg])
qed

lemma evaluate_no_mismatch: "fst (evaluate model cr w S) \<noteq> Inl ReportInputMismatch"
proof (cases "check_cardinality (test_dir w) (train_files w) S")
  case (Inl e)
  then have "evaluate model cr w S = (Inl e, [])" by (simp add: evaluate_def)
  moreover from Inl have "e \<noteq> ReportInputMismatch"
    by (auto simp add: check_cardinality_def split: if_splits)
  ultimately show ?thesis by simp
next
  case (Inr u)
  then have c: "check_cardinality (test_dir w) (train_files w) S = Inr ()" by simp
  then have chk: "0 < length (train_files w)" "S \<noteq> 0" "int (length (train_files w)) mod S = 0"
    using check_cardinality_Inr by auto
  show ?thesis
  proof (cases "database w")
    case None
    then show ?thesis by (simp add: evaluate_stages(1) [OF c])
  next
    case (Some d)
    show ?thesis
    proof (cases "names (train_files w)")
      case (Inl e)
      with Some show ?thesis using names_error [OF Inl] by (simp add: evaluate_stages(2) [OF c])
    next
      case nm: (Inr ns)
      show ?thesis
      proof (cases "train_labels d ns")
        case (Inl e)
        with Some nm show ?thesis
          using train_labels_error [OF Inl] by (simp add: evaluate_stages(3) [OF c])
      next
        case lb: (Inr labels)
        show ?thesis
        proof (cases "output_dir_exists w \<or> mkdir_ok w")
          case False
          with Some nm lb show ?thesis by (simp add: evaluate_stages(4) [OF c])
        next
          case dir: True
          show ?thesis
          proof (cases "0 < S")
            case True
            then have "length (train_files w) mod nat S = 0"
              using chk(3) zmod_int [of "length (train_files w)" "nat S"] by simp
            from evaluate_succeeds [OF chk(1) this Some nm lb dir, of model cr] True
            show ?thesis by (simp add: Let_def)
          next
            case False
            then have "S \<le> 0" by simp
            from evaluate_nonpos [OF c this Some nm lb dir, of model cr]
            show ?thesis by simp
          qed
        qed
      qed
    qed
  qed
qed

section \<open>The example runs\<close>

lemmas example_defs = two_slices_def no_slices_def three_slices_def unnumbered_def
  constant_model_def no_metrics_def

lemma stems:
  "stem ''maps/1abc_1.png'' = ''1abc_1''" "stem ''maps/2xyz_2.png'' = ''2xyz_2''"
  "stem ''maps/notes.png'' = ''notes''"
  by (simp_all add: stem_def path_name_def Let_def)

lemma example_names:
  "names [''maps/1abc_1.png'', ''maps/2xyz_2.png''] = Inr [''1abc'', ''2xyz'']"
  "names [''maps/1abc_1.png'', ''maps/notes.png''] = Inl IndexError"
  by (simp_all add: names_def structure_name_def stems is_digit_def)


lemma example_labels:
  "train_labels [''1abc'' \<mapsto> 1, ''2xyz'' \<mapsto> 0] [''1abc'', ''2xyz''] = Inr [1, 0]"
  by (simp add: train_labels_def)


lemma one_name: "names [''maps/1abc_1.png''] = Inr [''1abc'']"
  by (simp add: names_def structure_name_def stems is_digit_def)

lemma one_label: "train_labels [''1abc'' \<mapsto> 1, ''2xyz'' \<mapsto> 0] [''1abc''] = Inr [1]"
  by (simp add: train_labels_def)

section \<open>Properties\<close>

text \<open>
  C1. Let \<open>S\<close> be a number of slices per structure and let there be \<open>L > 0\<close> predictions
  with \<open>L mod S = 0\<close>. The aggregation step cuts the predictions into exactly \<open>L div S\<close>
  batches; batch \<open>i\<close> is the \<open>S\<close> predictions from position \<open>S * i\<close> on, in their order, and
  the batches concatenated in order are the predictions again. Both per-structure tables
  are computed batch by batch from these batches.
\<close>

theorem partition_batches:
  fixes S :: nat and predictions :: "prediction list"
  assumes "0 < length predictions" and "length predictions mod S = 0"
  shows "length (batches predictions (int S)) = length predictions div S \<and>
         (\<forall>i < length predictions div S.
            batches predictions (int S) ! i = take S (drop (S * i) predictions) \<and>
            length (batches predictions (int S) ! i) = S) \<and>
         concat (batches predictions (int S)) = predictions \<and>
         predictions_structure_avg predictions (int S) =
           map (\<lambda>b. (np_mean (map fst b), np_mean (map snd b))) (batches predictions (int S)) \<and>
         predictions_structure_count predictions (int S) =
           map (\<lambda>b. (real_of_int (sum_list (map fst (predictions_by_result b))) / real S,
                     real_of_int (sum_list (map snd (predictions_by_result b))) / real S))
               (batches predictions (int S))"
proof -
  have "S * (length predictions div S) = length predictions"
    using assms(2) by (simp add: mod_eq_0_iff_dvd)
  then have "concat (batches predictions (int S)) = predictions"
    by (simp add: batches_nat concat_take_drop)
  moreover have "predictions_structure_avg predictions (int S) =
      map (\<lambda>b. (np_mean (map fst b), np_mean (map snd b))) (batches predictions (int S))"
    by (simp add: predictions_structure_avg_def batches_def comp_def)
  moreover have "predictions_structure_count predictions (int S) =
      map (\<lambda>b. (real_of_int (sum_list (map fst (predictions_by_result b))) / real S,
                real_of_int (sum_list (map snd (predictions_by_result b))) / real S))
          (batches predictions (int S))"
    by (simp add: predictions_structure_count_def batches_def comp_def batch_by_result)
  ultimately show ?thesis
    by (simp add: batches_nat length_batch_full)
qed

theorem partition_batches_witness:
  "0 < length four_predictions \<and> length four_predictions mod 2 = 0 \<and>
   length (batches four_predictions 2) = 2 \<and>
   batches four_predictions 2 ! 0 = [(1 / 4, 3 / 4), (2 / 5, 3 / 5)] \<and>
   batches four_predictions 2 ! 1 = [(3 / 4, 1 / 4), (1 / 2, 1 / 2)] \<and>
   concat (batches four_predictions 2) = four_predictions"
proof -
  have h: "0 < length four_predictions" "length four_predictions mod 2 = 0"
    by (simp_all add: four_predictions_def)
  have l: "length four_predictions div 2 = 2"
    by (simp add: four_predictions_def)
  from partition_batches [OF h]
  have n: "length (batches four_predictions 2) = 2"
    and b: "\<forall>i < 2. batches four_predictions 2 ! i = take 2 (drop (2 * i) four_predictions)"
    and c: "concat (batches four_predictions 2) = four_predictions"
    by (simp_all add: l)
  from b have "batches four_predictions 2 ! 0 = take 2 (drop (2 * 0) four_predictions)"
    and "batches four_predictions 2 ! 1 = take 2 (drop (2 * 1) four_predictions)"
    by simp_all
  then have "batches four_predictions 2 ! 0 = [(1 / 4, 3 / 4), (2 / 5, 3 / 5)]"
    and "batches four_predictions 2 ! 1 = [(3 / 4, 1 / 4), (1 / 2, 1 / 2)]"
    by (simp_all add: four_predictions_def)
  with h n c show ?thesis by simp
qed

text \<open>
  C2 (as amended). For every batch whose \<open>count_fraction\<close> is 1, which is the case exactly
  when every slice of the batch has its positive channel strictly above its negative
  channel, the count-based structure decision is 1; for every batch whose
  \<open>count_fraction\<close> is 0 it is 0. The average-based decision agrees with it when the two
  channels of every slice of the batch sum to 1.
\<close>

theorem unanimous_batch_decisions:
  assumes "i < length (predictions_structure_count ps S)"
  shows "(count_fraction ps S i = 1 \<longleftrightarrow> (\<forall>p\<in>set (batch ps S i). fst p < snd p)) \<and>
         (count_fraction ps S i = 0 \<longleftrightarrow> (\<forall>p\<in>set (batch ps S i). \<not> fst p < snd p)) \<and>
         (count_fraction ps S i = 1 \<longrightarrow> predictions_struct_count_flat ps S ! i = 1) \<and>
         (count_fraction ps S i = 0 \<longrightarrow> predictions_struct_count_flat ps S ! i = 0) \<and>
         ((\<forall>p\<in>set (batch ps S i). fst p + snd p = 1) \<longrightarrow>
            (count_fraction ps S i = 1 \<longrightarrow> predictions_struct_avg_flat ps S ! i = 1) \<and>
            (count_fraction ps S i = 0 \<longrightarrow> predictions_struct_avg_flat ps S ! i = 0))"
proof -
  let ?b = "batch ps S i"
  from assms have r: "i < length (structure_range (length ps) S)"
    by (simp add: length_structure_tables)
  then have S: "0 < S" and i: "i < length ps div nat S"
    using in_structure_range by blast+
  have len: "length ?b = nat S"
    using S i by (rule length_batch_pos)
  then have ne: "?b \<noteq> []" using S by auto
  have cf: "count_fraction ps S i = real (length (filter (\<lambda>p. fst p < snd p) ?b)) / real_of_int S"
    using r by (rule count_fraction_batch)
  have rS: "real_of_int S = real (nat S)" using S by simp
  have n: "0 < nat S" using S by simp
  have "count_fraction ps S i = real (length (filter (\<lambda>p. fst p < snd p) ?b)) / real (nat S)"
    by (simp only: cf rS)
  then have "count_fraction ps S i = 1 \<longleftrightarrow> length (filter (\<lambda>p. fst p < snd p) ?b) = length ?b"
    by (simp only: ratio_eq_one [OF n] len)
  then have one: "count_fraction ps S i = 1 \<longleftrightarrow> (\<forall>p\<in>set ?b. fst p < snd p)"
    by (simp add: length_filter_all)
  have zero: "count_fraction ps S i = 0 \<longleftrightarrow> (\<forall>p\<in>set ?b. \<not> fst p < snd p)"
    using S by (simp add: cf filter_empty_conv)
  have c1: "count_fraction ps S i = 1 \<longrightarrow> predictions_struct_count_flat ps S ! i = 1"
    by (simp add: count_flat_nth [OF r])
  have c0: "count_fraction ps S i = 0 \<longrightarrow> predictions_struct_count_flat ps S ! i = 0"
    by (simp add: count_flat_nth [OF r])
  have mp: "mean_positive ps S i = np_mean (map snd ?b)"
    using r by (rule mean_positive_batch)
  have a: "predictions_struct_avg_flat ps S ! i = (if 1 / 2 < np_mean (map snd ?b) then 1 else 0)"
    by (simp add: avg_flat_nth [OF r] mp)
  have n1: "predictions_struct_avg_flat ps S ! i = 1"
    if norm: "\<forall>p\<in>set ?b. fst p + snd p = 1" and "count_fraction ps S i = 1"
  proof -
    from that one have "\<forall>p\<in>set ?b. fst p < snd p" by simp
    with norm have "\<forall>x\<in>set (map snd ?b). 1 / 2 < x" by fastforce
    with ne have "1 / 2 < np_mean (map snd ?b)" by (intro np_mean_above) simp_all
    with a show ?thesis by simp
  qed
  have n0: "predictions_struct_avg_flat ps S ! i = 0"
    if norm: "\<forall>p\<in>set ?b. fst p + snd p = 1" and "count_fraction ps S i = 0"
  proof -
    from that zero have "\<forall>p\<in>set ?b. \<not> fst p < snd p" by simp
    with norm have "\<forall>x\<in>set (map snd ?b). x \<le> 1 / 2" by fastforce
    with ne have "np_mean (map snd ?b) \<le> 1 / 2" by (intro np_mean_below) simp_all
    with a show ?thesis by simp
  qed
  from one zero c1 c0 n1 n0 show ?thesis by blast
qed

theorem unanimous_batch_decisions_witness:
  "0 < length (predictions_structure_count [(1 / 4, 3 / 4), (2 / 5, 3 / 5)] 2) \<and>
   count_fraction [(1 / 4, 3 / 4), (2 / 5, 3 / 5)] 2 0 = 1 \<and>
   predictions_struct_count_flat [(1 / 4, 3 / 4), (2 / 5, 3 / 5)] 2 ! 0 = 1 \<and>
   predictions_struct_avg_flat [(1 / 4, 3 / 4), (2 / 5, 3 / 5)] 2 ! 0 = 1 \<and>
   0 < length (predictions_structure_count [(3 / 4, 1 / 4), (1 / 2, 1 / 2)] 2) \<and>
   count_fraction [(3 / 4, 1 / 4), (1 / 2, 1 / 2)] 2 0 = 0 \<and>
   predictions_struct_count_flat [(3 / 4, 1 / 4), (1 / 2, 1 / 2)] 2 ! 0 = 0 \<and>
   predictions_struct_avg_flat [(3 / 4, 1 / 4), (1 / 2, 1 / 2)] 2 ! 0 = 0"
proof -
  let ?p = "[(1 / 4, 3 / 4), (2 / 5, 3 / 5)] :: prediction list"
  let ?q = "[(3 / 4, 1 / 4), (1 / 2, 1 / 2)] :: prediction list"
  have lp: "0 < length (predictions_structure_count ?p 2)"
    and lq: "0 < length (predictions_structure_count ?q 2)"
    by (simp_all add: eval_defs)
  have bp: "batch ?p 2 0 = ?p" and bq: "batch ?q 2 0 = ?q"
    by (simp_all add: eval_defs)
  from unanimous_batch_decisions [OF lp] unanimous_batch_decisions [OF lq] lp lq
  show ?thesis by (simp add: bp bq)
qed

theorem unanimous_batch_counterexample:
  "count_fraction [(1 / 10, 1 / 5)] 1 0 = 1 \<and>
   predictions_struct_count_flat [(1 / 10, 1 / 5)] 1 ! 0 = 1 \<and>
   predictions_struct_avg_flat [(1 / 10, 1 / 5)] 1 ! 0 = 0 \<and>
   count_fraction [(9 / 10, 4 / 5)] 1 0 = 0 \<and>
   predictions_struct_count_flat [(9 / 10, 4 / 5)] 1 ! 0 = 0 \<and>
   predictions_struct_avg_flat [(9 / 10, 4 / 5)] 1 ! 0 = 1"
  by (simp add: eval_defs)


text \<open>
  C3. A slice whose two channels are equal is counted in neither column of the
  per-structure count table, so the two columns do not sum to 1. The run below has one
  such slice and one slice per structure: \<open>counted_predictions.csv\<close> has 0 in both columns,
  while the per-slice decision of the same slice is class 0.
\<close>

theorem count_fractions_tie:
  "predictions_decoded [(1 / 2, 1 / 2)] = [0] \<and>
   predictions_structure_count [(1 / 2, 1 / 2)] 1 = [(0, 0)] \<and>
   count_fraction [(1 / 2, 1 / 2)] 1 0 = 0 \<and>
   count_fraction_negative [(1 / 2, 1 / 2)] 1 0 = 0 \<and>
   count_fraction_negative [(1 / 2, 1 / 2)] 1 0 \<noteq> 1 - count_fraction [(1 / 2, 1 / 2)] 1 0 \<and>
   evaluate tied_model no_metrics one_slice 1 =
     (Inr True,
      [Mkdir,
       ToCsv ''raw_predictions.csv'' (Scores [''maps/1abc_1.png''] [1 / 2] [1 / 2] [1]),
       ToCsv ''per_image_class.csv'' (ClassReport ()),
       ToCsv ''per_image_conf.csv'' (Confusion [[0, 1], [0, 0]]),
       ToCsv ''averaged_predictions.csv'' (Scores [''1abc''] [1 / 2] [1 / 2] [1]),
       ToCsv ''counted_predictions.csv'' (Scores [''1abc''] [0] [0] [1]),
       ToCsv ''average_class.csv'' (ClassReport ()),
       ToCsv ''average_conf.csv'' (Confusion [[0, 1], [0, 0]]),
       ToCsv ''count_class.csv'' (ClassReport ()),
       ToCsv ''count_conf.csv'' (Confusion [[0, 1], [0, 0]])])"
proof -
  have t: "predictions_decoded [(1 / 2, 1 / 2)] = [0]"
    "predictions_structure_avg [(1 / 2, 1 / 2)] 1 = [(1 / 2, 1 / 2)]"
    "predictions_structure_count [(1 / 2, 1 / 2)] 1 = [(0, 0)]"
    "predictions_struct_avg_flat [(1 / 2, 1 / 2)] 1 = [0]"
    "predictions_struct_count_flat [(1 / 2, 1 / 2)] 1 = [0]"
    by (simp_all add: eval_defs predictions_decoded_def)
  have f: "count_fraction [(1 / 2, 1 / 2)] 1 0 = 0"
    "count_fraction_negative [(1 / 2, 1 / 2)] 1 0 = 0"
    by (simp_all add: count_fraction_def count_fraction_negative_def t)
  have cm: "confusion_matrix [0] [1] = [[0, 1], [0, 0]]"
    by (simp add: confusion_matrix_def unique_labels_def)
  have h: "0 < length (train_files one_slice)" "length (train_files one_slice) mod 1 = 0"
    "database one_slice = Some [''1abc'' \<mapsto> 1, ''2xyz'' \<mapsto> 0]"
    "names (train_files one_slice) = Inr [''1abc'']"
    "train_labels [''1abc'' \<mapsto> 1, ''2xyz'' \<mapsto> 0] [''1abc''] = Inr [1]"
    "output_dir_exists one_slice \<or> mkdir_ok one_slice"
    by (simp_all add: one_slice_def two_slices_def one_name one_label)
  from evaluate_succeeds [OF h, of tied_model no_metrics]
  have "evaluate tied_model no_metrics one_slice 1 =
     (Inr True,
      [Mkdir,
       ToCsv ''raw_predictions.csv'' (Scores [''maps/1abc_1.png''] [1 / 2] [1 / 2] [1]),
       ToCsv ''per_image_class.csv'' (ClassReport ()),
       ToCsv ''per_image_conf.csv'' (Confusion [[0, 1], [0, 0]]),
       ToCsv ''averaged_predictions.csv'' (Scores [''1abc''] [1 / 2] [1 / 2] [1]),
       ToCsv ''counted_predictions.csv'' (Scores [''1abc''] [0] [0] [1]),
       ToCsv ''average_class.csv'' (ClassReport ()),
       ToCsv ''average_conf.csv'' (Confusion [[0, 1], [0, 0]]),
       ToCsv ''count_class.csv'' (ClassReport ()),
       ToCsv ''count_conf.csv'' (Confusion [[0, 1], [0, 0]])])"
    by (simp add: tied_model_def t cm Let_def one_slice_def two_slices_def no_metrics_def)
  with t f show ?thesis by simp
qed

text \<open>
  C4. The per-slice decision compares the two channels of the slice: it is 1 if the
  positive channel is strictly greater than the negative channel and 0 otherwise, so a
  slice with equal channels is decided 0.
\<close>

theorem predictions_decoded_pairwise:
  "length (predictions_decoded ps) = length ps \<and>
   (\<forall>i < length ps.
      predictions_decoded ps ! i = (if fst (ps ! i) < snd (ps ! i) then 1 else 0)) \<and>
   (\<forall>i < length ps. fst (ps ! i) = snd (ps ! i) \<longrightarrow> predictions_decoded ps ! i = 0)"
  by (simp add: predictions_decoded_def)

theorem predictions_decoded_pairwise_witness:
  "predictions_decoded [(3 / 10, 7 / 10), (3 / 5, 2 / 5), (1 / 2, 1 / 2)] ! 0 = 1 \<and>
   predictions_decoded [(3 / 10, 7 / 10), (3 / 5, 2 / 5), (1 / 2, 1 / 2)] ! 1 = 0 \<and>
   predictions_decoded [(3 / 10, 7 / 10), (3 / 5, 2 / 5), (1 / 2, 1 / 2)] ! 2 = 0"
proof -
  let ?p = "[(3 / 10, 7 / 10), (3 / 5, 2 / 5), (1 / 2, 1 / 2)] :: prediction list"
  from predictions_decoded_pairwise [of ?p]
  have a: "\<forall>i < length ?p. predictions_decoded ?p ! i = (if fst (?p ! i) < snd (?p ! i) then 1 else 0)"
    and t: "\<forall>i < length ?p. fst (?p ! i) = snd (?p ! i) \<longrightarrow> predictions_decoded ?p ! i = 0"
    by blast+
  from a [rule_format, of 0] a [rule_format, of 1] t [rule_format, of 2]
  show ?thesis by simp
qed

text \<open>
  C5. For every batch, the average-based structure decision is 1 exactly when the mean of
  the positive channel over the batch is strictly greater than 0.5, and the count-based
  decision is 1 exactly when the fraction of slices of the batch with positive above
  negative channel is strictly greater than 0.5; a mean of exactly 0.5 is decided 0.
\<close>

theorem structure_decisions:
  assumes "i < length (predictions_structure_avg ps S)"
  shows "mean_positive ps S i = np_mean (map snd (batch ps S i)) \<and>
         count_fraction ps S i =
           real (length (filter (\<lambda>p. fst p < snd p) (batch ps S i))) / real_of_int S \<and>
         predictions_struct_avg_flat ps S ! i = (if 1 / 2 < mean_positive ps S i then 1 else 0) \<and>
         predictions_struct_count_flat ps S ! i = (if 1 / 2 < count_fraction ps S i then 1 else 0) \<and>
         (mean_positive ps S i = 1 / 2 \<longrightarrow> predictions_struct_avg_flat ps S ! i = 0)"
proof -
  from assms have r: "i < length (structure_range (length ps) S)"
    by (simp add: length_structure_tables)
  show ?thesis
    by (simp add: mean_positive_batch [OF r, symmetric] count_fraction_batch [OF r, symmetric]
        avg_flat_nth [OF r] count_flat_nth [OF r])
qed

theorem structure_decisions_witness:
  "0 < length (predictions_structure_avg [(1 / 5, 2 / 5), (1 / 10, 3 / 5)] 2) \<and>
   mean_positive [(1 / 5, 2 / 5), (1 / 10, 3 / 5)] 2 0 = 1 / 2 \<and>
   predictions_struct_avg_flat [(1 / 5, 2 / 5), (1 / 10, 3 / 5)] 2 ! 0 = 0 \<and>
   count_fraction [(1 / 5, 2 / 5), (1 / 10, 3 / 5)] 2 0 = 1 \<and>
   predictions_struct_count_flat [(1 / 5, 2 / 5), (1 / 10, 3 / 5)] 2 ! 0 = 1"
proof -
  have l: "0 < length (predictions_structure_avg [(1 / 5, 2 / 5), (1 / 10, 3 / 5)] 2)"
    by (simp add: eval_defs)
  have m: "np_mean (map snd (batch ([(1 / 5, 2 / 5), (1 / 10, 3 / 5)] :: prediction list) 2 0)) = 1 / 2"
    by (simp add: eval_defs)
  have c: "real (length (filter (\<lambda>p. fst p < snd p) (batch [(1 / 5, 2 / 5), (1 / 10, 3 / 5 :: real)] 2 0)))
            / real_of_int 2 = 1"
    by (simp add: eval_defs)
  from structure_decisions [OF l] m c l show ?thesis by simp
qed

text \<open>
  C6. If the test directory lists no file, or a number of files that is not an exact
  multiple of \<open>slices_per_structure\<close>, the run stops with the exception of the cardinality
  check and has written nothing: an \<open>AssertionError\<close>, or the \<open>ZeroDivisionError\<close> of the
  modulo when \<open>slices_per_structure\<close> is zero and there are files. Conversely, when there
  are files and their number is a multiple, the check passes and no later exception of the
  run is one of the check.
\<close>

theorem cardinality_check:
  "(length (train_files w) = 0 \<or> int (length (train_files w)) mod S \<noteq> 0 \<longrightarrow>
      (\<exists>e. check_cardinality (test_dir w) (train_files w) S = Inl e \<and>
           evaluate model classification_report w S = (Inl e, []) \<and>
           InvalidCardinality e \<and>
           (S \<noteq> 0 \<or> length (train_files w) = 0 \<longrightarrow> (\<exists>msg. e = AssertionError msg)))) \<and>
   (0 < length (train_files w) \<and> int (length (train_files w)) mod S = 0 \<longrightarrow>
      check_cardinality (test_dir w) (train_files w) S = Inr () \<and>
      (\<forall>e. fst (evaluate model classification_report w S) = Inl e \<longrightarrow> \<not> InvalidCardinality e))"
proof (intro conjI impI)
  assume "length (train_files w) = 0 \<or> int (length (train_files w)) mod S \<noteq> 0"
  then obtain e where e: "check_cardinality (test_dir w) (train_files w) S = Inl e"
    "InvalidCardinality e"
    "S \<noteq> 0 \<or> length (train_files w) = 0 \<longrightarrow> (\<exists>msg. e = AssertionError msg)"
    using check_cardinality_fails by blast
  from e(1) have "evaluate model classification_report w S = (Inl e, [])"
    by (simp add: evaluate_def)
  with e show "\<exists>e. check_cardinality (test_dir w) (train_files w) S = Inl e \<and>
           evaluate model classification_report w S = (Inl e, []) \<and>
           InvalidCardinality e \<and>
           (S \<noteq> 0 \<or> length (train_files w) = 0 \<longrightarrow> (\<exists>msg. e = AssertionError msg))"
    by blast
next
  assume a: "0 < length (train_files w) \<and> int (length (train_files w)) mod S = 0"
  then show c: "check_cardinality (test_dir w) (train_files w) S = Inr ()"
    by (simp add: check_cardinality_passes)
  show "\<forall>e. fst (evaluate model classification_report w S) = Inl e \<longrightarrow> \<not> InvalidCardinality e"
    using evaluate_error_after_check [OF c] by fastforce
qed

theorem cardinality_check_witness:
  "length (train_files no_slices) = 0 \<and>
   evaluate constant_model no_metrics no_slices 60 =
     (Inl (AssertionError ''Could not find files at maps''), []) \<and>
   int (length (train_files three_slices)) mod 2 \<noteq> 0 \<and>
   evaluate constant_model no_metrics three_slices 2 =
     (Inl (AssertionError
        ''Number of test files is not an exact multiple of slices per structure''), []) \<and>
   0 < length (train_files two_slices) \<and> int (length (train_files two_slices)) mod 2 = 0 \<and>
   check_cardinality (test_dir two_slices) (train_files two_slices) 2 = Inr ()"
proof -
  have a: "length (train_files no_slices) = 0"
    and b: "int (length (train_files three_slices)) mod 2 \<noteq> 0"
    and c: "0 < length (train_files two_slices) \<and> int (length (train_files two_slices)) mod 2 = 0"
    by (simp_all add: example_defs)
  from cardinality_check [of no_slices 60 constant_model no_metrics] a
  have 1: "\<exists>e. check_cardinality (test_dir no_slices) (train_files no_slices) 60 = Inl e \<and>
    evaluate constant_model no_metrics no_slices 60 = (Inl e, [])" by blast
  from cardinality_check [of three_slices 2 constant_model no_metrics] b
  have 2: "\<exists>e. check_cardinality (test_dir three_slices) (train_files three_slices) 2 = Inl e \<and>
    evaluate constant_model no_metrics three_slices 2 = (Inl e, [])" by blast
  from cardinality_check [of two_slices 2 constant_model no_metrics] c
  have 3: "check_cardinality (test_dir two_slices) (train_files two_slices) 2 = Inr ()" by blast
  have "check_cardinality (test_dir no_slices) (train_files no_slices) 60
          = Inl (AssertionError ''Could not find files at maps'')"
    "check_cardinality (test_dir three_slices) (train_files three_slices) 2
          = Inl (AssertionError
              ''Number of test files is not an exact multiple of slices per structure'')"
    by (simp_all add: example_defs check_cardinality_def)
  with 1 2 3 a b c show ?thesis by auto
qed


text \<open>
  C7. For predicted and true label sequences of the same length that are not empty, the
  report builder succeeds and the cells of the confusion matrix sum to that length.
\<close>

theorem confusion_matrix_total:
  assumes "length predicted = length true" and "predicted \<noteq> []"
  shows "build_report classification_report predicted true =
           Inr (classification_report predicted true, confusion_matrix predicted true) \<and>
         sum_list (map sum_list (confusion_matrix predicted true)) = length predicted \<and>
         sum_list (map sum_list (confusion_matrix predicted true)) = length true"
  using assms by (simp add: build_report_def confusion_matrix_sum)

theorem confusion_matrix_total_witness:
  "length [1, 0 :: int] = length [1, 0 :: int] \<and> [1, 0 :: int] \<noteq> [] \<and>
   confusion_matrix [1, 0] [1, 0] = [[1, 0], [0, 1]] \<and>
   sum_list (map sum_list (confusion_matrix [1, 0] [1, 0])) = 2"
  using confusion_matrix_total [of "[1, 0]" "[1, 0]" "\<lambda>p t. ()"]
  by (simp add: confusion_matrix_def unique_labels_def)

text \<open>
  C8. The structure name of a file is the first element of what \<open>findall\<close> returns on the
  stem of the file. It raises \<open>IndexError\<close> exactly when the stem has no underscore that is
  followed by a digit, and nothing in the run handles it: a run that has passed the
  cardinality check and opened the database stops with \<open>IndexError\<close>, having written
  nothing, exactly when the stem of some listed file has no such underscore.
\<close>

theorem structure_name_extraction:
  "(structure_name file = Inl IndexError \<longleftrightarrow> \<not> has_number_suffix (stem file)) \<and>
   (check_cardinality (test_dir w) (train_files w) S = Inr () \<and> database w = Some d \<longrightarrow>
      ((\<exists>f\<in>set (train_files w). \<not> has_number_suffix (stem f)) \<longleftrightarrow>
       evaluate model classification_report w S = (Inl IndexError, [])))"
proof (intro conjI impI)
  show "structure_name file = Inl IndexError \<longleftrightarrow> \<not> has_number_suffix (stem file)"
    by (rule structure_name_fails)
next
  assume a: "check_cardinality (test_dir w) (train_files w) S = Inr () \<and> database w = Some d"
  then have c: "check_cardinality (test_dir w) (train_files w) S = Inr ()"
    and db: "database w = Some d" by simp_all
  show "(\<exists>f\<in>set (train_files w). \<not> has_number_suffix (stem f)) \<longleftrightarrow>
        evaluate model classification_report w S = (Inl IndexError, [])"
  proof (cases "names (train_files w)")
    case (Inl e)
    then have "e = IndexError" by (rule names_error)
    with Inl db have "evaluate model classification_report w S = (Inl IndexError, [])"
      by (simp add: evaluate_stages(2) [OF c])
    moreover from Inl have "\<exists>f\<in>set (train_files w). \<not> has_number_suffix (stem f)"
      using names_fails by blast
    ultimately show ?thesis by simp
  next
    case (Inr ns)
    then have no: "\<not> (\<exists>f\<in>set (train_files w). \<not> has_number_suffix (stem f))"
      using names_fails [of "train_files w"] by simp
    have "evaluate model classification_report w S \<noteq> (Inl IndexError, [])"
    proof (cases "train_labels d ns")
      case (Inl e)
      then have "e = KeyError" by (rule train_labels_error)
      with Inl Inr db show ?thesis by (simp add: evaluate_stages(3) [OF c])
    next
      case lb: (Inr labels)
      show ?thesis
        unfolding evaluate_def Let_def
        by (auto simp add: c db Inr lb step_def score_frame_def
            split: sum.splits prod.splits if_splits)
    qed
    with no show ?thesis by simp
  qed
qed

theorem structure_name_extraction_witness:
  "\<not> has_number_suffix (stem ''maps/notes.png'') \<and>
   structure_name ''maps/notes.png'' = Inl IndexError \<and>
   check_cardinality (test_dir unnumbered) (train_files unnumbered) 2 = Inr () \<and>
   database unnumbered = Some [''1abc'' \<mapsto> 1, ''2xyz'' \<mapsto> 0] \<and>
   evaluate constant_model no_metrics unnumbered 2 = (Inl IndexError, [])"
proof -
  have s: "\<not> has_number_suffix (stem ''maps/notes.png'')"
    by (simp add: stems)
  have c: "check_cardinality (test_dir unnumbered) (train_files unnumbered) 2 = Inr () \<and>
           database unnumbered = Some [''1abc'' \<mapsto> 1, ''2xyz'' \<mapsto> 0]"
    by (simp add: example_defs check_cardinality_def)
  have f: "\<exists>f\<in>set (train_files unnumbered). \<not> has_number_suffix (stem f)"
    using s by (simp add: example_defs)
  from structure_name_extraction [of "''maps/notes.png''" unnumbered 2 _ constant_model no_metrics]
    s c f show ?thesis by blast
qed

text \<open>
  C9. The label of structure \<open>i\<close> in the per-structure reports is the label at index
  \<open>S * i\<close> of the label sequence. Nothing is required of the other labels of a batch, nor of
  the names: whenever the number of files is positive and a multiple of \<open>S\<close>, and the
  labels of all files are found, the run succeeds and both per-structure reports are built
  from those first-of-batch labels.
\<close>

theorem first_of_batch_labels:
  fixes S :: nat
  assumes "0 < length (train_files w)" and "length (train_files w) mod S = 0"
    and "database w = Some d"
    and "names (train_files w) = Inr ns"
    and "train_labels d ns = Inr labels"
    and "output_dir_exists w \<or> mkdir_ok w"
  shows "testing_info_by_structure labels (int S) =
           Inr (map (\<lambda>i. labels ! (S * i)) [0..<length labels div S]) \<and>
         evaluate model classification_report w (int S) =
           (let predictions = map model (train_files w);
                decoded = predictions_decoded predictions;
                info = map (\<lambda>i. labels ! (S * i)) [0..<length labels div S];
                structure = map (\<lambda>i. ns ! (S * i)) [0..<length labels div S];
                avg = predictions_structure_avg predictions (int S);
                count = predictions_structure_count predictions (int S);
                avg_flat = predictions_struct_avg_flat predictions (int S);
                count_flat = predictions_struct_count_flat predictions (int S)
            in (Inr True,
                (if output_dir_exists w then [] else [Mkdir]) @
                [ToCsv ''raw_predictions.csv''
                   (Scores (train_files w) (map fst predictions) (map snd predictions) labels),
                 ToCsv ''per_image_class.csv'' (ClassReport (classification_report decoded labels)),
                 ToCsv ''per_image_conf.csv'' (Confusion (confusion_matrix decoded labels)),
                 ToCsv ''averaged_predictions.csv''
                   (Scores structure (map fst avg) (map snd avg) info),
                 ToCsv ''counted_predictions.csv''
                   (Scores structure (map fst count) (map snd count) info),
                 ToCsv ''average_class.csv'' (ClassReport (classification_report avg_flat info)),
                 ToCsv ''average_conf.csv'' (Confusion (confusion_matrix avg_flat info)),
                 ToCsv ''count_class.csv'' (ClassReport (classification_report count_flat info)),
                 ToCsv ''count_conf.csv'' (Confusion (confusion_matrix count_flat info))]))"
proof (rule conjI)
  show "testing_info_by_structure labels (int S) =
          Inr (map (\<lambda>i. labels ! (S * i)) [0..<length labels div S])"
    by (rule testing_info_first_of_batch)
qed (use assms in \<open>rule evaluate_succeeds\<close>)


theorem first_of_batch_labels_witness:
  "0 < length (train_files two_slices) \<and> length (train_files two_slices) mod 2 = 0 \<and>
   database two_slices = Some [''1abc'' \<mapsto> 1, ''2xyz'' \<mapsto> 0] \<and>
   names (train_files two_slices) = Inr [''1abc'', ''2xyz''] \<and>
   train_labels [''1abc'' \<mapsto> 1, ''2xyz'' \<mapsto> 0] [''1abc'', ''2xyz''] = Inr [1, 0] \<and>
   (output_dir_exists two_slices \<or> mkdir_ok two_slices) \<and>
   testing_info_by_structure [1, 0] 2 = Inr [1] \<and>
   evaluate constant_model no_metrics two_slices 2 =
     (Inr True,
      [Mkdir,
       ToCsv ''raw_predictions.csv''
         (Scores [''maps/1abc_1.png'', ''maps/2xyz_2.png''] [1 / 4, 1 / 4] [3 / 4, 3 / 4] [1, 0]),
       ToCsv ''per_image_class.csv'' (ClassReport ()),
       ToCsv ''per_image_conf.csv'' (Confusion [[0, 0], [1, 1]]),
       ToCsv ''averaged_predictions.csv'' (Scores [''1abc''] [1 / 4] [3 / 4] [1]),
       ToCsv ''counted_predictions.csv'' (Scores [''1abc''] [0] [1] [1]),
       ToCsv ''average_class.csv'' (ClassReport ()),
       ToCsv ''average_conf.csv'' (Confusion [[1]]),
       ToCsv ''count_class.csv'' (ClassReport ()),
       ToCsv ''count_conf.csv'' (Confusion [[1]])])"
proof -
  have h: "0 < length (train_files two_slices)" "length (train_files two_slices) mod 2 = 0"
    "database two_slices = Some [''1abc'' \<mapsto> 1, ''2xyz'' \<mapsto> 0]"
    "names (train_files two_slices) = Inr [''1abc'', ''2xyz'']"
    "train_labels [''1abc'' \<mapsto> 1, ''2xyz'' \<mapsto> 0] [''1abc'', ''2xyz''] = Inr [1, 0]"
    "output_dir_exists two_slices \<or> mkdir_ok two_slices"
    by (simp_all add: two_slices_def example_names example_labels)
  have t: "predictions_decoded [(1 / 4, 3 / 4), (1 / 4, 3 / 4)] = [1, 1]"
    "predictions_structure_avg [(1 / 4, 3 / 4), (1 / 4, 3 / 4)] 2 = [(1 / 4, 3 / 4)]"
    "predictions_structure_count [(1 / 4, 3 / 4), (1 / 4, 3 / 4)] 2 = [(0, 1)]"
    "predictions_struct_avg_flat [(1 / 4, 3 / 4), (1 / 4, 3 / 4)] 2 = [1]"
    "predictions_struct_count_flat [(1 / 4, 3 / 4), (1 / 4, 3 / 4)] 2 = [1]"
    by (simp_all add: eval_defs predictions_decoded_def)
  have cm: "confusion_matrix [1, 1] [1, 0] = [[0, 0], [1, 1]]" "confusion_matrix [1] [1] = [[1]]"
    by (simp_all add: confusion_matrix_def unique_labels_def)
  from first_of_batch_labels [OF h, of constant_model no_metrics]
  have "testing_info_by_structure [1, 0] 2 = Inr [1] \<and>
    evaluate constant_model no_metrics two_slices 2 =
     (Inr True,
      [Mkdir,
       ToCsv ''raw_predictions.csv''
         (Scores [''maps/1abc_1.png'', ''maps/2xyz_2.png''] [1 / 4, 1 / 4] [3 / 4, 3 / 4] [1, 0]),
       ToCsv ''per_image_class.csv'' (ClassReport ()),
       ToCsv ''per_image_conf.csv'' (Confusion [[0, 0], [1, 1]]),
       ToCsv ''averaged_predictions.csv'' (Scores [''1abc''] [1 / 4] [3 / 4] [1]),
       ToCsv ''counted_predictions.csv'' (Scores [''1abc''] [0] [1] [1]),
       ToCsv ''average_class.csv'' (ClassReport ()),
       ToCsv ''average_conf.csv'' (Confusion [[1]]),
       ToCsv ''count_class.csv'' (ClassReport ()),
       ToCsv ''count_conf.csv'' (Confusion [[1]])])"
    by (simp add: constant_model_def t cm Let_def two_slices_def no_metrics_def)
  with h show ?thesis by blast
qed


text \<open>
  C10. When the number of listed files \<open>L\<close> is positive and a multiple of \<open>S\<close>, the
  per-slice report receives \<open>L\<close> decisions and \<open>L\<close> labels, and both per-structure reports
  receive \<open>L div S > 0\<close> decisions and \<open>L div S\<close> labels; no run ends with the length-mismatch
  error of the report builder.
\<close>

theorem report_lengths:
  fixes S :: nat
  assumes "0 < length (train_files w)" and "length (train_files w) mod S = 0"
    and "database w = Some d"
    and "names (train_files w) = Inr ns"
    and "train_labels d ns = Inr labels"
  shows "length (predictions_decoded (map model (train_files w))) = length (train_files w) \<and>
         length labels = length (train_files w) \<and>
         length (predictions_struct_avg_flat (map model (train_files w)) (int S))
           = length (train_files w) div S \<and>
         length (predictions_struct_count_flat (map model (train_files w)) (int S))
           = length (train_files w) div S \<and>
         (\<exists>info. testing_info_by_structure labels (int S) = Inr info \<and>
                 length info = length (train_files w) div S) \<and>
         0 < length (train_files w) div S \<and>
         (\<forall>S'. fst (evaluate model classification_report w S') \<noteq> Inl ReportInputMismatch)"
proof -
  have lls: "length labels = length (train_files w)"
    using assms(4,5) by (simp add: train_labels_length names_length)
  have "0 < length (train_files w) div S"
    using assms(1,2) by (rule structures_positive)
  then show ?thesis
    by (simp add: length_predictions_decoded lls length_structure_tables structure_range_nat
        testing_info_first_of_batch evaluate_no_mismatch)
qed

theorem report_lengths_witness:
  "0 < length (train_files two_slices) \<and> length (train_files two_slices) mod 2 = 0 \<and>
   database two_slices = Some [''1abc'' \<mapsto> 1, ''2xyz'' \<mapsto> 0] \<and>
   names (train_files two_slices) = Inr [''1abc'', ''2xyz''] \<and>
   train_labels [''1abc'' \<mapsto> 1, ''2xyz'' \<mapsto> 0] [''1abc'', ''2xyz''] = Inr [1, 0] \<and>
   length (predictions_decoded (map constant_model (train_files two_slices))) = 2 \<and>
   length (predictions_struct_avg_flat (map constant_model (train_files two_slices)) 2) = 1 \<and>
   length (predictions_struct_count_flat (map constant_model (train_files two_slices)) 2) = 1 \<and>
   fst (evaluate constant_model no_metrics two_slices 2) \<noteq> Inl ReportInputMismatch"
proof -
  have h: "0 < length (train_files two_slices)" "length (train_files two_slices) mod 2 = 0"
    "database two_slices = Some [''1abc'' \<mapsto> 1, ''2xyz'' \<mapsto> 0]"
    "names (train_files two_slices) = Inr [''1abc'', ''2xyz'']"
    "train_labels [''1abc'' \<mapsto> 1, ''2xyz'' \<mapsto> 0] [''1abc'', ''2xyz''] = Inr [1, 0]"
    by (simp_all add: two_slices_def example_names example_labels)
  have l: "length (train_files two_slices) = 2" by (simp add: two_slices_def)
  from report_lengths [OF h, of constant_model no_metrics] h l
  show ?thesis by simp
qed

end
